theory Spec2Isabelle
  imports Main "HOL-Library.AList"
begin

section \<open>The MCP adapter of the CAMEL terminal toolkit (server.py)\<close>

text \<open>
  The development embeds \<^verbatim>\<open>src/camel_terminal_toolkit/server.py\<close>: the lazily built
  registry (\<^verbatim>\<open>initialize_toolkit\<close>), the schema inference of \<^verbatim>\<open>list_tools\<close> and the
  dispatcher \<^verbatim>\<open>call_tool\<close>. The two module globals \<^verbatim>\<open>terminal_toolkit\<close> and
  \<^verbatim>\<open>toolkit_kwargs\<close> are fields of an explicit state, every \<^verbatim>\<open>raise\<close> is a value
  \<open>Inl e\<close> of a sum type, and the effects of the external callables are threaded
  through an opaque world \<open>'w\<close>.
\<close>

subsection \<open>Python values, exceptions, strings\<close>

text \<open>
  An exception object is its class and what \<^verbatim>\<open>str(e)\<close> returns. The class records
  whether it derives from \<^verbatim>\<open>Exception\<close>: \<^verbatim>\<open>except Exception\<close> catches exactly those,
  and lets \<^verbatim>\<open>KeyboardInterrupt\<close>, \<^verbatim>\<open>SystemExit\<close> and the other classes that derive
  from \<^verbatim>\<open>BaseException\<close> only pass.
\<close>

datatype exc_class = Exception_subclass string | BaseException_only string

datatype py_exc = PyExc (exc_cls: exc_class) (exc_str: string)

fun isinstance_Exception :: "py_exc \<Rightarrow> bool" where
  "isinstance_Exception (PyExc (Exception_subclass _) _) = True"
| "isinstance_Exception (PyExc (BaseException_only _) _) = False"

text \<open>
  The values the adapter handles: results of tools, defaults of parameters, entries of
  the configuration. \<open>PObj r\<close> is any other object, given by what \<^verbatim>\<open>str\<close> does on it.
  A character stands for a code point below 256.
\<close>

datatype pyval =
    PStr string
  | PInt int
  | PBool bool
  | PNone
  | PObj "py_exc + string"

definition digit_chr :: "nat \<Rightarrow> char" where
  "digit_chr d = ''0123456789'' ! d"

function str_nat :: "nat \<Rightarrow> string" where
  "str_nat n = (if n < 10 then [digit_chr n] else str_nat (n div 10) @ [digit_chr (n mod 10)])"
  by pat_completeness auto
termination
  by (relation "measure (\<lambda>n. n)") auto

declare str_nat.simps [simp del]

definition str_int :: "int \<Rightarrow> string" where
  "str_int i = (if i < 0 then CHR ''-'' # str_nat (nat (- i)) else str_nat (nat i))"

text \<open>\<^verbatim>\<open>str(result)\<close>.\<close>

fun py_str :: "pyval \<Rightarrow> py_exc + string" where
  "py_str (PStr s) = Inr s"
| "py_str (PInt i) = Inr (str_int i)"
| "py_str (PBool b) = Inr (if b then ''True'' else ''False'')"
| "py_str PNone = Inr ''None''"
| "py_str (PObj r) = r"

text \<open>
  \<^verbatim>\<open>s.split(sep)\<close> for a separator of one character: the pieces between the
  occurrences of the separator, never an empty list.
\<close>

fun py_split :: "char \<Rightarrow> string \<Rightarrow> string list" where
  "py_split sep [] = [[]]"
| "py_split sep (c # cs) =
     (if c = sep then [] # py_split sep cs
      else (case py_split sep cs of
              [] \<Rightarrow> [[c]]
            | l # ls \<Rightarrow> (c # l) # ls))"

text \<open>
  \<^verbatim>\<open>str.isspace\<close> on one character, for the code points below 256: tab to carriage
  return, the four separators 0x1C to 0x1F, space, NEL and the no-break space.
\<close>

definition py_isspace :: "char \<Rightarrow> bool" where
  "py_isspace c =
     (let n = (of_char c :: nat)
      in (9 \<le> n \<and> n \<le> 13) \<or> (28 \<le> n \<and> n \<le> 32) \<or> n = 133 \<or> n = 160)"

text \<open>The first line of a text: what stands before its first line feed.\<close>

definition first_line :: "string \<Rightarrow> string" where
  "first_line s = takeWhile (\<lambda>c. c \<noteq> CHR 0x0A) s"

text \<open>\<^verbatim>\<open>s.strip()\<close>.\<close>

definition py_strip :: "string \<Rightarrow> string" where
  "py_strip s = rev (dropWhile py_isspace (rev (dropWhile py_isspace s)))"

subsection \<open>Callables and their signatures\<close>

text \<open>
  What \<^verbatim>\<open>inspect\<close> shows of a parameter: its name, its kind, its annotation and its
  default. \<open>AnnEmpty\<close> and the default \<open>None\<close> stand for \<^verbatim>\<open>inspect.Parameter.empty\<close>.
  \<open>AnnOther\<close> is any annotation object other than the classes \<^verbatim>\<open>str\<close>, \<^verbatim>\<open>int\<close> and
  \<^verbatim>\<open>bool\<close> (\<^verbatim>\<open>float\<close>, \<^verbatim>\<open>Optional[int]\<close>, a string annotation, and so on).
\<close>

datatype param_kind =
  POSITIONAL_ONLY | POSITIONAL_OR_KEYWORD | VAR_POSITIONAL | KEYWORD_ONLY | VAR_KEYWORD

datatype annotation = AnnEmpty | AnnStr | AnnInt | AnnBool | AnnOther string

record param =
  p_name :: string
  p_kind :: param_kind
  p_annotation :: annotation
  p_default :: "pyval option"

type_synonym arguments = "(string \<times> pyval) list"

text \<open>
  A callable of the toolkit (\<^verbatim>\<open>func_tool.func\<close>) is a function or a bound method:
  \<open>fn_name\<close> is \<^verbatim>\<open>__name__\<close>, \<open>fn_doc\<close> is \<^verbatim>\<open>__doc__\<close> (\<open>None\<close> when there is no
  docstring), \<open>fn_params\<close> are the parameters its \<^verbatim>\<open>def\<close> declares, the receiver
  included, and \<open>fn_bound\<close> says that it is a method bound to its receiver.
  \<open>fn_call\<close> is the call \<^verbatim>\<open>func(**arguments)\<close>: it returns or raises, and changes the
  world.
\<close>

record 'w func =
  fn_name :: string
  fn_doc :: "string option"
  fn_bound :: bool
  fn_params :: "param list"
  fn_call :: "arguments \<Rightarrow> 'w \<Rightarrow> (py_exc + pyval) \<times> 'w"

text \<open>
  \<^verbatim>\<open>inspect.signature(func)\<close> of the standard library, for a function and for a bound
  method. A function shows its declared parameters. A bound method drops its first
  parameter when that is positional, keeps everything when the first parameter is
  \<^verbatim>\<open>*args\<close>, and raises \<^verbatim>\<open>ValueError\<close> otherwise.
\<close>

definition invalid_method_signature :: py_exc where
  "invalid_method_signature = PyExc (Exception_subclass ''ValueError'') ''invalid method signature''"

fun signature_bound_method :: "param list \<Rightarrow> py_exc + param list" where
  "signature_bound_method [] = Inl invalid_method_signature"
| "signature_bound_method (p # ps) =
     (case p_kind p of
        VAR_KEYWORD \<Rightarrow> Inl invalid_method_signature
      | KEYWORD_ONLY \<Rightarrow> Inl invalid_method_signature
      | POSITIONAL_OR_KEYWORD \<Rightarrow> Inr ps
      | POSITIONAL_ONLY \<Rightarrow> Inr ps
      | VAR_POSITIONAL \<Rightarrow> Inr (p # ps))"

definition inspect_signature :: "'w func \<Rightarrow> py_exc + param list" where
  "inspect_signature f =
     (if fn_bound f then signature_bound_method (fn_params f) else Inr (fn_params f))"

subsection \<open>The descriptor of a tool\<close>

text \<open>
  \<^verbatim>\<open>param_info\<close> is the dictionary with the keys \<^verbatim>\<open>type\<close>, \<^verbatim>\<open>description\<close> and, only
  for a parameter with a default, \<^verbatim>\<open>default\<close>. \<^verbatim>\<open>Tool\<close> carries the name, the
  description and the input schema; the dictionary \<^verbatim>\<open>properties\<close> keeps its insertion
  order, so it is an association list updated as a Python dictionary is.
\<close>

record param_info =
  pi_type :: string
  pi_description :: string
  pi_default :: "pyval option"

record input_schema =
  schema_type :: string
  properties :: "(string \<times> param_info) list"
  required :: "string list"

record tool =
  tool_name :: string
  tool_description :: string
  inputSchema :: input_schema

text \<open>Lines 61 to 77: the schema of one parameter.\<close>

definition param_info_of :: "param \<Rightarrow> param_info" where
  "param_info_of p =
     (let param_type = ''string'';
          param_desc = ''Parameter '' @ p_name p;
          param_type =
            (if p_annotation p \<noteq> AnnEmpty then
               (if p_annotation p = AnnStr then ''string''
                else if p_annotation p = AnnInt then ''number''
                else if p_annotation p = AnnBool then ''boolean''
                else param_type)
             else param_type)
      in \<lparr>pi_type = param_type, pi_description = param_desc, pi_default = p_default p\<rparr>)"

text \<open>Lines 60 to 79: the loop over \<^verbatim>\<open>sig.parameters.items()\<close>, filling \<^verbatim>\<open>parameters\<close>.\<close>

fun parameters_loop ::
  "param list \<Rightarrow> (string \<times> param_info) list \<Rightarrow> (string \<times> param_info) list" where
  "parameters_loop [] parameters = parameters"
| "parameters_loop (p # ps) parameters =
     parameters_loop ps (AList.update (p_name p) (param_info_of p) parameters)"

text \<open>Lines 87 to 90: the names of the parameters whose default is empty, in order.\<close>

definition required_names :: "param list \<Rightarrow> string list" where
  "required_names ps = map p_name (filter (\<lambda>p. p_default p = None) ps)"

text \<open>Line 54: \<^verbatim>\<open>func.__doc__ or f"Execute {func_name}"\<close>; an empty docstring is falsy.\<close>

definition func_doc_of :: "'w func \<Rightarrow> string" where
  "func_doc_of f =
     (case fn_doc f of
        None \<Rightarrow> ''Execute '' @ fn_name f
      | Some d \<Rightarrow> (if d = [] then ''Execute '' @ fn_name f else d))"

definition index_error :: py_exc where
  "index_error = PyExc (Exception_subclass ''IndexError'') ''list index out of range''"

text \<open>
  Lines 51 to 92, the body of the loop of \<^verbatim>\<open>list_tools\<close>: the descriptor inferred
  for one callable. It raises what \<^verbatim>\<open>inspect.signature\<close> raises.
\<close>

definition infer_tool :: "'w func \<Rightarrow> py_exc + tool" where
  "infer_tool f =
     (let func_name = fn_name f;
          func_doc = func_doc_of f
      in case inspect_signature f of
           Inl e \<Rightarrow> Inl e
         | Inr sig \<Rightarrow>
             (let parameters = parameters_loop sig []
              in case py_split (CHR 0x0A) func_doc of
                   [] \<Rightarrow> Inl index_error
                 | line0 # _ \<Rightarrow>
                     Inr \<lparr>tool_name = func_name,
                          tool_description = py_strip line0,
                          inputSchema =
                            \<lparr>schema_type = ''object'',
                             properties = parameters,
                             required = required_names sig\<rparr>\<rparr>))"

text \<open>Lines 47 to 95: the loop over the callables, appending to \<^verbatim>\<open>tools\<close>.\<close>

fun tools_loop :: "'w func list \<Rightarrow> tool list \<Rightarrow> py_exc + tool list" where
  "tools_loop [] tools = Inr tools"
| "tools_loop (f # fs) tools =
     (case infer_tool f of
        Inl e \<Rightarrow> Inl e
      | Inr t \<Rightarrow> tools_loop fs (tools @ [t]))"

subsection \<open>The registry and the two handlers\<close>

text \<open>
  The toolkit instance is the list its \<^verbatim>\<open>get_tools()\<close> returns, each entry standing
  for its \<^verbatim>\<open>func_tool.func\<close>; an instance is truthy,
  as every object without \<^verbatim>\<open>__bool__\<close> and \<^verbatim>\<open>__len__\<close> is. The factory is the
  constructor \<^verbatim>\<open>TerminalToolkit(**toolkit_kwargs)\<close>: it returns an instance or raises,
  and changes the world. \<open>factory_calls\<close> counts its invocations; no handler reads it.
\<close>

record 'w toolkit =
  get_tools :: "'w func list"

type_synonym config = "(string \<times> pyval) list"

type_synonym 'w factory = "config \<Rightarrow> 'w \<Rightarrow> (py_exc + 'w toolkit) \<times> 'w"

datatype log_level = INFO | ERROR

record 'w server_state =
  terminal_toolkit :: "'w toolkit option"
  toolkit_kwargs :: config
  logged :: "(log_level \<times> string) list"
  factory_calls :: nat
  world :: 'w

datatype text_content = TextContent (content_type: string) (content_text: string)

text \<open>Lines 33 to 38.\<close>

definition initialize_toolkit ::
  "'w factory \<Rightarrow> 'w server_state \<Rightarrow> (py_exc + unit) \<times> 'w server_state" where
  "initialize_toolkit factory s =
     (if terminal_toolkit s = None then
        (let s1 = s\<lparr>logged := logged s @ [(INFO, ''Initializing Terminal Toolkit'')]\<rparr>;
             r = factory (toolkit_kwargs s1) (world s1);
             s2 = s1\<lparr>factory_calls := Suc (factory_calls s1), world := snd r\<rparr>
         in case fst r of
              Inl e \<Rightarrow> (Inl e, s2)
            | Inr tk \<Rightarrow> (Inr (), s2\<lparr>terminal_toolkit := Some tk\<rparr>))
      else (Inr (), s))"

text \<open>
  Lines 44 to 45 and 101 to 102, the first statement of both handlers:
  \<^verbatim>\<open>if not terminal_toolkit: initialize_toolkit()\<close>.
\<close>

definition ensure_toolkit ::
  "'w factory \<Rightarrow> 'w server_state \<Rightarrow> (py_exc + unit) \<times> 'w server_state" where
  "ensure_toolkit factory s =
     (if terminal_toolkit s = None then initialize_toolkit factory s else (Inr (), s))"

definition none_has_no_get_tools :: py_exc where
  "none_has_no_get_tools =
     PyExc (Exception_subclass ''AttributeError'')
       ([CHR 0x27] @ ''NoneType'' @ [CHR 0x27] @ '' object has no attribute ''
          @ [CHR 0x27] @ ''get_tools'' @ [CHR 0x27])"

text \<open>Lines 42 to 95.\<close>

definition list_tools ::
  "'w factory \<Rightarrow> 'w server_state \<Rightarrow> (py_exc + tool list) \<times> 'w server_state" where
  "list_tools factory s =
     (case ensure_toolkit factory s of
        (Inl e, s1) \<Rightarrow> (Inl e, s1)
      | (Inr _, s1) \<Rightarrow>
          (case terminal_toolkit s1 of
             None \<Rightarrow> (Inl none_has_no_get_tools, s1)
           | Some tk \<Rightarrow> (tools_loop (get_tools tk) [], s1)))"

text \<open>Lines 107 to 112: the first callable whose name is \<^verbatim>\<open>name\<close>.\<close>

fun find_target :: "string \<Rightarrow> 'w func list \<Rightarrow> 'w func option" where
  "find_target name [] = None"
| "find_target name (f # fs) = (if fn_name f = name then Some f else find_target name fs)"

text \<open>
  Lines 105 to 127, the body of the \<^verbatim>\<open>try\<close>: it returns a response or raises, in
  the state it has reached. A result that is a \<^verbatim>\<open>str\<close> is the text as it is; any
  other result goes through \<^verbatim>\<open>str\<close>, which may raise.
\<close>

definition call_tool_try ::
  "string \<Rightarrow> arguments \<Rightarrow> 'w server_state \<Rightarrow> (py_exc + text_content list) \<times> 'w server_state" where
  "call_tool_try name arguments s =
     (case terminal_toolkit s of
        None \<Rightarrow> (Inl none_has_no_get_tools, s)
      | Some tk \<Rightarrow>
          (case find_target name (get_tools tk) of
             None \<Rightarrow>
               (Inr [TextContent ''text'' (''Tool '' @ [CHR 0x27] @ name @ [CHR 0x27] @ '' not found'')], s)
           | Some target_func \<Rightarrow>
               (let r = fn_call target_func arguments (world s);
                    s1 = s\<lparr>world := snd r\<rparr>
                in case fst r of
                     Inl e \<Rightarrow> (Inl e, s1)
                   | Inr result \<Rightarrow>
                       (case result of
                          PStr result_text \<Rightarrow> (Inr [TextContent ''text'' result_text], s1)
                        | _ \<Rightarrow>
                            (case py_str result of
                               Inl e \<Rightarrow> (Inl e, s1)
                             | Inr t \<Rightarrow> (Inr [TextContent ''text'' t], s1))))))"

text \<open>
  Lines 99 to 134. The initialization stands before the \<^verbatim>\<open>try\<close>; the handler
  \<^verbatim>\<open>except Exception\<close> logs and answers, and any other exception goes on.
\<close>

definition call_tool ::
  "'w factory \<Rightarrow> string \<Rightarrow> arguments \<Rightarrow> 'w server_state
     \<Rightarrow> (py_exc + text_content list) \<times> 'w server_state" where
  "call_tool factory name arguments s =
     (case ensure_toolkit factory s of
        (Inl e, s1) \<Rightarrow> (Inl e, s1)
      | (Inr _, s1) \<Rightarrow>
          (case call_tool_try name arguments s1 of
             (Inr response, s2) \<Rightarrow> (Inr response, s2)
           | (Inl e, s2) \<Rightarrow>
               (if isinstance_Exception e then
                  (let msg = ''Error calling tool '' @ name @ '': '' @ exc_str e
                   in (Inr [TextContent ''text'' msg], s2\<lparr>logged := logged s2 @ [(ERROR, msg)]\<rparr>))
                else (Inl e, s2))))"

subsection \<open>Sequences of requests\<close>

text \<open>
  What reaches the module while it serves: the two requests, and an assignment to the
  global \<^verbatim>\<open>toolkit_kwargs\<close> (line 204). A request ends with a response or with the
  exception that left its handler; the globals stay as the handler left them. What the
  transport does with an exception is its own affair: \<open>serve\<close> describes the requests
  it goes on to deliver.
\<close>

datatype request =
    is_ListTools: ListTools
  | is_CallTool: CallTool string arguments
  | is_SetKwargs: SetKwargs config

datatype outcome =
    Tools "tool list"
  | Content "text_content list"
  | Raised py_exc
  | Assigned

fun handle :: "'w factory \<Rightarrow> request \<Rightarrow> 'w server_state \<Rightarrow> outcome \<times> 'w server_state" where
  "handle factory ListTools s =
     (case list_tools factory s of
        (Inl e, s') \<Rightarrow> (Raised e, s')
      | (Inr ts, s') \<Rightarrow> (Tools ts, s'))"
| "handle factory (CallTool name arguments) s =
     (case call_tool factory name arguments s of
        (Inl e, s') \<Rightarrow> (Raised e, s')
      | (Inr response, s') \<Rightarrow> (Content response, s'))"
| "handle factory (SetKwargs kwargs) s = (Assigned, s\<lparr>toolkit_kwargs := kwargs\<rparr>)"

fun serve :: "'w factory \<Rightarrow> request list \<Rightarrow> 'w server_state \<Rightarrow> outcome list \<times> 'w server_state" where
  "serve factory [] s = ([], s)"
| "serve factory (r # rs) s =
     (case handle factory r s of
        (out, s1) \<Rightarrow> (case serve factory rs s1 of (outs, s2) \<Rightarrow> (out # outs, s2)))"

text \<open>The state of the module when the process starts (lines 29 and 30).\<close>

definition initial_state :: "'w \<Rightarrow> 'w server_state" where
  "initial_state w =
     \<lparr>terminal_toolkit = None, toolkit_kwargs = [], logged = [], factory_calls = 0, world = w\<rparr>"

subsection \<open>A toolkit to run the definitions on\<close>

text \<open>
  Callables of the shapes the adapter meets, over a world that is the list of the
  commands the terminal has run: a bound method with annotated and defaulted
  parameters, a function, a tool that raises \<^verbatim>\<open>ValueError("bad input")\<close>, a tool that
  raises \<^verbatim>\<open>SystemExit\<close>, a tool that returns a number, a tool without a docstring and a
  tool whose docstring is the empty string.
\<close>

definition value_error :: "string \<Rightarrow> py_exc" where
  "value_error msg = PyExc (Exception_subclass ''ValueError'') msg"

definition type_error :: "string \<Rightarrow> py_exc" where
  "type_error msg = PyExc (Exception_subclass ''TypeError'') msg"

definition self_param :: param where
  "self_param =
     \<lparr>p_name = ''self'', p_kind = POSITIONAL_OR_KEYWORD, p_annotation = AnnEmpty, p_default = None\<rparr>"

definition shell_exec_params :: "param list" where
  "shell_exec_params =
     [\<lparr>p_name = ''id'', p_kind = POSITIONAL_OR_KEYWORD, p_annotation = AnnStr, p_default = None\<rparr>,
      \<lparr>p_name = ''command'', p_kind = POSITIONAL_OR_KEYWORD, p_annotation = AnnStr, p_default = None\<rparr>,
      \<lparr>p_name = ''block'', p_kind = POSITIONAL_OR_KEYWORD, p_annotation = AnnBool,
       p_default = Some (PBool True)\<rparr>,
      \<lparr>p_name = ''retries'', p_kind = POSITIONAL_OR_KEYWORD, p_annotation = AnnInt,
       p_default = Some (PInt 3)\<rparr>,
      \<lparr>p_name = ''timeout'', p_kind = KEYWORD_ONLY, p_annotation = AnnOther ''float'',
       p_default = None\<rparr>,
      \<lparr>p_name = ''env'', p_kind = KEYWORD_ONLY, p_annotation = AnnEmpty, p_default = Some PNone\<rparr>]"

definition shell_exec_call :: "arguments \<Rightarrow> string list \<Rightarrow> (py_exc + pyval) \<times> string list" where
  "shell_exec_call args w =
     (case map_of args ''command'' of
        Some (PStr c) \<Rightarrow> (Inr (PStr (''ran '' @ c)), w @ [c])
      | _ \<Rightarrow> (Inl (type_error ''shell_exec() missing command''), w))"

definition shell_exec :: "string list func" where
  "shell_exec =
     \<lparr>fn_name = ''shell_exec'',
      fn_doc = Some ([CHR 0x0A] @ ''    Run a command.'' @ [CHR 0x0A]),
      fn_bound = True,
      fn_params = self_param # shell_exec_params,
      fn_call = shell_exec_call\<rparr>"

definition echo_call :: "arguments \<Rightarrow> string list \<Rightarrow> (py_exc + pyval) \<times> string list" where
  "echo_call args w =
     (case map_of args ''x'' of
        Some v \<Rightarrow> (Inr v, w)
      | None \<Rightarrow> (Inl (type_error ''echo() missing x''), w))"

definition echo :: "string list func" where
  "echo =
     \<lparr>fn_name = ''echo'',
      fn_doc = Some (''  Echo the text back.  '' @ [CHR 0x0A] @ ''Args: x''),
      fn_bound = False,
      fn_params =
        [\<lparr>p_name = ''x'', p_kind = POSITIONAL_OR_KEYWORD, p_annotation = AnnStr, p_default = None\<rparr>],
      fn_call = echo_call\<rparr>"

definition raise_call ::
  "py_exc \<Rightarrow> arguments \<Rightarrow> string list \<Rightarrow> (py_exc + pyval) \<times> string list" where
  "raise_call e args w = (Inl e, w)"

definition return_call ::
  "pyval \<Rightarrow> arguments \<Rightarrow> string list \<Rightarrow> (py_exc + pyval) \<times> string list" where
  "return_call v args w = (Inr v, w)"

definition broken :: "string list func" where
  "broken =
     \<lparr>fn_name = ''broken'', fn_doc = Some ''Always fails.'', fn_bound = False, fn_params = [],
      fn_call = raise_call (value_error ''bad input'')\<rparr>"

definition shell_exit :: "string list func" where
  "shell_exit =
     \<lparr>fn_name = ''shell_exit'', fn_doc = Some ''Leave the shell.'', fn_bound = False, fn_params = [],
      fn_call = raise_call (PyExc (BaseException_only ''SystemExit'') ''1'')\<rparr>"

definition count :: "string list func" where
  "count =
     \<lparr>fn_name = ''count'', fn_doc = Some ''Count the sessions.'', fn_bound = False, fn_params = [],
      fn_call = return_call (PInt 42)\<rparr>"

definition ping :: "string list func" where
  "ping =
     \<lparr>fn_name = ''ping'', fn_doc = None, fn_bound = False, fn_params = [],
      fn_call = return_call (PStr ''pong'')\<rparr>"

definition blank :: "string list func" where
  "blank =
     \<lparr>fn_name = ''blank'', fn_doc = Some [], fn_bound = False, fn_params = [],
      fn_call = return_call PNone\<rparr>"

definition full_toolkit :: "string list toolkit" where
  "full_toolkit = \<lparr>get_tools = [shell_exec, echo, broken, shell_exit, count, ping, blank]\<rparr>"

definition safe_toolkit :: "string list toolkit" where
  "safe_toolkit = \<lparr>get_tools = [shell_exec, echo, ping, blank]\<rparr>"

definition twin_toolkit :: "string list toolkit" where
  "twin_toolkit = \<lparr>get_tools = [ping, ping]\<rparr>"

text \<open>
  A factory that reads its configuration: an empty working directory is refused, and
  \<^verbatim>\<open>safe_mode\<close> chooses the tools.
\<close>

definition example_factory :: "string list factory" where
  "example_factory kwargs w =
     (if map_of kwargs ''working_directory'' = Some (PStr []) then
        (Inl (value_error ''bad working directory''), w)
      else if map_of kwargs ''safe_mode'' = Some (PBool False) then (Inr full_toolkit, w)
      else (Inr safe_toolkit, w))"

definition twin_factory :: "string list factory" where
  "twin_factory kwargs w = (Inr twin_toolkit, w)"

definition unsafe_kwargs :: config where
  "unsafe_kwargs = [(''safe_mode'', PBool False), (''interactive'', PBool False)]"

definition bad_kwargs :: config where
  "bad_kwargs = [(''working_directory'', PStr [])]"

text \<open>A state whose registry is built, and the state after the first listing.\<close>

definition ready_state :: "string list server_state" where
  "ready_state =
     \<lparr>terminal_toolkit = Some full_toolkit, toolkit_kwargs = unsafe_kwargs, logged = [],
      factory_calls = 1, world = []\<rparr>"

definition listed_state :: "string list server_state" where
  "listed_state =
     \<lparr>terminal_toolkit = Some safe_toolkit, toolkit_kwargs = [],
      logged = [(INFO, ''Initializing Terminal Toolkit'')], factory_calls = 1, world = []\<rparr>"

text \<open>A state whose configuration the factory refuses.\<close>

definition misconfigured_state :: "string list server_state" where
  "misconfigured_state =
     \<lparr>terminal_toolkit = None, toolkit_kwargs = bad_kwargs, logged = [], factory_calls = 0,
      world = []\<rparr>"

text \<open>The descriptors of the four tools of \<open>safe_toolkit\<close>, written out.\<close>

definition shell_exec_descriptor :: tool where
  "shell_exec_descriptor =
     \<lparr>tool_name = ''shell_exec'', tool_description = [],
      inputSchema =
        \<lparr>schema_type = ''object'',
         properties =
           [(''id'', \<lparr>pi_type = ''string'', pi_description = ''Parameter id'', pi_default = None\<rparr>),
            (''command'',
             \<lparr>pi_type = ''string'', pi_description = ''Parameter command'', pi_default = None\<rparr>),
            (''block'',
             \<lparr>pi_type = ''boolean'', pi_description = ''Parameter block'',
              pi_default = Some (PBool True)\<rparr>),
            (''retries'',
             \<lparr>pi_type = ''number'', pi_description = ''Parameter retries'',
              pi_default = Some (PInt 3)\<rparr>),
            (''timeout'',
             \<lparr>pi_type = ''string'', pi_description = ''Parameter timeout'', pi_default = None\<rparr>),
            (''env'',
             \<lparr>pi_type = ''string'', pi_description = ''Parameter env'', pi_default = Some PNone\<rparr>)],
         required = [''id'', ''command'', ''timeout'']\<rparr>\<rparr>"

definition echo_descriptor :: tool where
  "echo_descriptor =
     \<lparr>tool_name = ''echo'', tool_description = ''Echo the text back.'',
      inputSchema =
        \<lparr>schema_type = ''object'',
         properties =
           [(''x'', \<lparr>pi_type = ''string'', pi_description = ''Parameter x'', pi_default = None\<rparr>)],
         required = [''x'']\<rparr>\<rparr>"

definition ping_descriptor :: tool where
  "ping_descriptor =
     \<lparr>tool_name = ''ping'', tool_description = ''Execute ping'',
      inputSchema = \<lparr>schema_type = ''object'', properties = [], required = []\<rparr>\<rparr>"

definition blank_descriptor :: tool where
  "blank_descriptor =
     \<lparr>tool_name = ''blank'', tool_description = ''Execute blank'',
      inputSchema = \<lparr>schema_type = ''object'', properties = [], required = []\<rparr>\<rparr>"

section \<open>Properties of the schema inference\<close>

subsection \<open>Strings and dictionaries\<close>

lemma py_split_first: "\<exists>ls. py_split sep s = takeWhile (\<lambda>c. c \<noteq> sep) s # ls"
  by (induction s) (auto split: list.splits)

lemma update_fresh: "k \<notin> fst ` set al \<Longrightarrow> AList.update k v al = al @ [(k, v)]"
  by (induction al) auto

lemma parameters_loop_distinct:
  "distinct (map p_name ps) \<Longrightarrow> p_name ` set ps \<inter> fst ` set acc = {} \<Longrightarrow>
   parameters_loop ps acc = acc @ map (\<lambda>p. (p_name p, param_info_of p)) ps"
proof (induction ps arbitrary: acc)
  case Nil
  then show ?case by simp
next
  case (Cons p ps)
  have fresh: "p_name p \<notin> fst ` set acc" using Cons.prems(2) by auto
  have upd: "AList.update (p_name p) (param_info_of p) acc = acc @ [(p_name p, param_info_of p)]"
    using fresh by (rule update_fresh)
  have disj: "p_name ` set ps \<inter> fst ` set (acc @ [(p_name p, param_info_of p)]) = {}"
    using Cons.prems by auto
  have "distinct (map p_name ps)" using Cons.prems(1) by simp
  from Cons.IH [OF this disj] show ?case by (simp add: upd)
qed

lemma parameters_loop_keys:
  "fst ` set (parameters_loop ps acc) = fst ` set acc \<union> p_name ` set ps"
  by (induction ps arbitrary: acc) (auto simp: dom_update image_iff)

subsection \<open>The loops and the registry\<close>

lemma tools_loop_all2:
  "tools_loop fs acc = Inr ts \<Longrightarrow>
   \<exists>ts'. ts = acc @ ts' \<and> list_all2 (\<lambda>f t. infer_tool f = Inr t) fs ts'"
proof (induction fs arbitrary: acc)
  case Nil
  then show ?case by simp
next
  case (Cons f fs)
  then show ?case by (fastforce split: sum.splits)
qed

lemma infer_tool_Inr:
  "infer_tool f = Inr t \<longleftrightarrow>
   (\<exists>ps. inspect_signature f = Inr ps \<and>
      t = \<lparr>tool_name = fn_name f,
           tool_description = py_strip (first_line (func_doc_of f)),
           inputSchema =
             \<lparr>schema_type = ''object'', properties = parameters_loop ps [],
              required = required_names ps\<rparr>\<rparr>)"
  using py_split_first [of "CHR 0x0A" "func_doc_of f"]
  by (auto simp: infer_tool_def first_line_def Let_def split: sum.splits list.splits)

lemma ensure_toolkit_Some:
  "terminal_toolkit s = Some tk \<Longrightarrow> ensure_toolkit factory s = (Inr (), s)"
  by (simp add: ensure_toolkit_def)

lemma ensure_toolkit_built:
  "terminal_toolkit s = None \<Longrightarrow> factory (toolkit_kwargs s) (world s) = (Inr tk, w') \<Longrightarrow>
   ensure_toolkit factory s =
     (Inr (), s\<lparr>logged := logged s @ [(INFO, ''Initializing Terminal Toolkit'')],
                factory_calls := Suc (factory_calls s), world := w',
                terminal_toolkit := Some tk\<rparr>)"
  by (simp add: ensure_toolkit_def initialize_toolkit_def Let_def)

lemma ensure_toolkit_failed:
  "terminal_toolkit s = None \<Longrightarrow> factory (toolkit_kwargs s) (world s) = (Inl e, w') \<Longrightarrow>
   ensure_toolkit factory s =
     (Inl e, s\<lparr>logged := logged s @ [(INFO, ''Initializing Terminal Toolkit'')],
               factory_calls := Suc (factory_calls s), world := w'\<rparr>)"
  by (simp add: ensure_toolkit_def initialize_toolkit_def Let_def)

lemma list_tools_all2:
  "list_tools factory s = (Inr ts, s') \<Longrightarrow>
   \<exists>tk. terminal_toolkit s' = Some tk \<and> list_all2 (\<lambda>f t. infer_tool f = Inr t) (get_tools tk) ts"
  by (auto simp: list_tools_def split: prod.splits sum.splits option.splits dest: tools_loop_all2)

lemma list_tools_nth:
  assumes "list_tools factory s = (Inr ts, s')" and "terminal_toolkit s' = Some tk"
    and "i < length ts"
  shows "i < length (get_tools tk) \<and> infer_tool (get_tools tk ! i) = Inr (ts ! i)"
  using list_tools_all2 [OF assms(1)] assms(2,3) by (auto simp: list_all2_conv_all_nth)

lemma find_target_None: "find_target name fs = None \<longleftrightarrow> name \<notin> fn_name ` set fs"
  by (induction fs) auto

subsection \<open>The example toolkit, evaluated\<close>

lemma listing_example:
  "list_tools example_factory (initial_state []) =
     (Inr [shell_exec_descriptor, echo_descriptor, ping_descriptor, blank_descriptor], listed_state)"
  by (simp add: list_tools_def ensure_toolkit_def initialize_toolkit_def initial_state_def
      example_factory_def listed_state_def safe_toolkit_def Let_def infer_tool_def
      inspect_signature_def func_doc_of_def shell_exec_def echo_def ping_def blank_def
      self_param_def shell_exec_params_def required_names_def param_info_of_def py_strip_def
      py_isspace_def shell_exec_descriptor_def echo_descriptor_def ping_descriptor_def
      blank_descriptor_def)

lemma shell_exec_signature: "inspect_signature shell_exec = Inr shell_exec_params"
  by (simp add: inspect_signature_def shell_exec_def self_param_def)

lemma shell_exec_params_distinct: "distinct (map p_name shell_exec_params)"
  by (simp add: shell_exec_params_def)

lemma listed_toolkit: "terminal_toolkit listed_state = Some safe_toolkit"
  by (simp add: listed_state_def)


subsection \<open>What one descriptor holds\<close>

lemma descriptor_shape:
  assumes "list_tools factory s = (Inr ts, s')" and "terminal_toolkit s' = Some tk"
    and "i < length ts" and "inspect_signature (get_tools tk ! i) = Inr ps"
  shows "ts ! i =
           \<lparr>tool_name = fn_name (get_tools tk ! i),
            tool_description = py_strip (first_line (func_doc_of (get_tools tk ! i))),
            inputSchema =
              \<lparr>schema_type = ''object'', properties = parameters_loop ps [],
               required = required_names ps\<rparr>\<rparr>"
  using list_tools_nth [OF assms(1,2,3)] assms(4) by (auto simp: infer_tool_Inr)

lemma descriptor_signature:
  assumes "list_tools factory s = (Inr ts, s')" and "terminal_toolkit s' = Some tk"
    and "i < length ts"
  shows "\<exists>ps. inspect_signature (get_tools tk ! i) = Inr ps"
  using list_tools_nth [OF assms] by (auto simp: infer_tool_Inr)

lemma parameters_loop_distinct_nil:
  "distinct (map p_name ps) \<Longrightarrow>
   parameters_loop ps [] = map (\<lambda>p. (p_name p, param_info_of p)) ps"
  using parameters_loop_distinct [of ps "[]"] by simp

lemma map_of_parameters:
  "distinct (map p_name ps) \<Longrightarrow> p \<in> set ps \<Longrightarrow>
   map_of (map (\<lambda>p. (p_name p, param_info_of p)) ps) (p_name p) = Some (param_info_of p)"
  by (induction ps) (auto simp: image_iff)

lemma required_names_iff:
  assumes d: "distinct (map p_name ps)" and p: "p \<in> set ps"
  shows "p_name p \<in> set (required_names ps) \<longleftrightarrow> p_default p = None"
proof
  assume "p_name p \<in> set (required_names ps)"
  then obtain q where q: "q \<in> set ps" "p_default q = None" "p_name q = p_name p"
    by (auto simp: required_names_def)
  have "inj_on p_name (set ps)" using d by (simp add: distinct_map)
  then have "q = p" using q(1,3) p by (auto dest: inj_onD)
  then show "p_default p = None" using q(2) by simp
next
  assume "p_default p = None"
  then show "p_name p \<in> set (required_names ps)"
    using p by (auto simp: required_names_def)
qed

subsection \<open>Descriptions and kinds\<close>

lemma line_feed_isspace: "py_isspace (CHR 0x0A)"
  by (simp add: py_isspace_def)

lemma first_line_whole: "CHR 0x0A \<notin> set s \<Longrightarrow> first_line s = s"
  unfolding first_line_def by (simp add: takeWhile_eq_all_conv) blast

lemma dropWhile_hd: "xs \<noteq> [] \<Longrightarrow> \<not> P (hd xs) \<Longrightarrow> dropWhile P xs = xs"
  by (cases xs) auto

lemma py_strip_solid:
  assumes "s \<noteq> []" and "\<not> py_isspace (hd s)" and "\<not> py_isspace (last s)"
  shows "py_strip s = s"
proof -
  have a: "dropWhile py_isspace s = s"
    using assms(1,2) by (rule dropWhile_hd)
  have "rev s \<noteq> []" and "\<not> py_isspace (hd (rev s))"
    using assms(1,3) by (simp_all add: hd_rev)
  then have b: "dropWhile py_isspace (rev s) = rev s"
    by (rule dropWhile_hd)
  show ?thesis by (simp add: py_strip_def a b)
qed

lemma fallback_description:
  assumes "name \<noteq> []" and "\<forall>c \<in> set name. \<not> py_isspace c"
  shows "py_strip (first_line (''Execute '' @ name)) = ''Execute '' @ name"
proof -
  have "CHR 0x0A \<notin> set name"
    using assms(2) line_feed_isspace by blast
  then have "CHR 0x0A \<notin> set (''Execute '' @ name)"
    by simp
  then have fl: "first_line (''Execute '' @ name) = ''Execute '' @ name"
    by (rule first_line_whole)
  have ne: "''Execute '' @ name \<noteq> []" by simp
  have h: "\<not> py_isspace (hd (''Execute '' @ name))"
    by (simp add: py_isspace_def)
  have "last (''Execute '' @ name) = last name"
    using assms(1) by simp
  then have l: "\<not> py_isspace (last (''Execute '' @ name))"
    using assms by simp
  show ?thesis
    unfolding fl using ne h l by (rule py_strip_solid)
qed

lemma pi_type_param_info_of:
  "pi_type (param_info_of p) =
     (if p_annotation p = AnnInt then ''number''
      else if p_annotation p = AnnBool then ''boolean'' else ''string'')"
  by (simp add: param_info_of_def Let_def)

section \<open>Properties of the dispatcher and of the registry\<close>

subsection \<open>One call\<close>

lemma call_tool_after_ensure:
  assumes "ensure_toolkit factory s = (Inr (), s1)"
  shows "call_tool factory name arguments s =
     (case call_tool_try name arguments s1 of
        (Inr response, s2) \<Rightarrow> (Inr response, s2)
      | (Inl e, s2) \<Rightarrow>
          (if isinstance_Exception e then
             (Inr [TextContent ''text'' (''Error calling tool '' @ name @ '': '' @ exc_str e)],
              s2\<lparr>logged := logged s2 @
                 [(ERROR, ''Error calling tool '' @ name @ '': '' @ exc_str e)]\<rparr>)
           else (Inl e, s2)))"
  by (simp add: call_tool_def assms Let_def split: prod.splits sum.splits)

lemma call_tool_try_raises:
  assumes "terminal_toolkit s1 = Some tk"
    and "find_target name (get_tools tk) = Some f"
    and "fn_call f arguments (world s1) = (Inl e, w')"
  shows "call_tool_try name arguments s1 = (Inl e, s1\<lparr>world := w'\<rparr>)"
  by (simp add: call_tool_try_def assms Let_def)

lemma call_tool_try_returns:
  assumes "terminal_toolkit s1 = Some tk"
    and "find_target name (get_tools tk) = Some f"
    and "fn_call f arguments (world s1) = (Inr v, w')"
  shows "call_tool_try name arguments s1 =
     (case py_str v of
        Inl e \<Rightarrow> (Inl e, s1\<lparr>world := w'\<rparr>)
      | Inr t \<Rightarrow> (Inr [TextContent ''text'' t], s1\<lparr>world := w'\<rparr>))"
  by (cases v) (simp_all add: call_tool_try_def assms Let_def split: sum.splits)

lemma call_tool_try_missing:
  assumes "terminal_toolkit s1 = Some tk"
    and "find_target name (get_tools tk) = None"
  shows "call_tool_try name arguments s1 =
     (Inr [TextContent ''text'' (''Tool '' @ [CHR 0x27] @ name @ [CHR 0x27] @ '' not found'')], s1)"
  by (simp add: call_tool_try_def assms)

lemma call_tool_try_single:
  "call_tool_try name arguments s1 = (Inr response, s2) \<Longrightarrow>
   \<exists>t. response = [TextContent ''text'' t]"
  by (auto simp: call_tool_try_def Let_def
      split: option.splits sum.splits pyval.splits prod.splits)

lemma call_tool_Inr_ensure:
  "call_tool factory name arguments s = (Inr response, s') \<Longrightarrow>
   \<exists>s1. ensure_toolkit factory s = (Inr (), s1)"
  by (auto simp: call_tool_def split: prod.splits sum.splits)

subsection \<open>What a request leaves of the registry\<close>

lemma call_tool_try_frame:
  "call_tool_try name arguments s1 = (r, s2) \<Longrightarrow>
   terminal_toolkit s2 = terminal_toolkit s1 \<and> factory_calls s2 = factory_calls s1
   \<and> toolkit_kwargs s2 = toolkit_kwargs s1"
  by (auto simp: call_tool_try_def Let_def
      split: option.splits sum.splits pyval.splits)

lemma call_tool_frame:
  assumes "ensure_toolkit factory s = (Inr (), s1)"
  shows "terminal_toolkit (snd (call_tool factory name arguments s)) = terminal_toolkit s1
       \<and> factory_calls (snd (call_tool factory name arguments s)) = factory_calls s1"
proof (cases "call_tool_try name arguments s1")
  case (Pair r s2)
  note frame = call_tool_try_frame [OF Pair]
  show ?thesis
    using frame by (cases r) (simp_all add: call_tool_after_ensure [OF assms] Pair)
qed

lemma list_tools_frame:
  assumes "ensure_toolkit factory s = (Inr (), s1)"
  shows "snd (list_tools factory s) = s1"
  by (simp add: list_tools_def assms split: option.splits)

lemma handle_frame:
  assumes "ensure_toolkit factory s = (Inr (), s1)" and "\<not> is_SetKwargs r"
  shows "terminal_toolkit (snd (handle factory r s)) = terminal_toolkit s1
       \<and> factory_calls (snd (handle factory r s)) = factory_calls s1"
proof (cases r)
  case ListTools
  have "snd (handle factory ListTools s) = snd (list_tools factory s)"
    by (simp split: prod.splits sum.splits)
  then show ?thesis using list_tools_frame [OF assms(1)] ListTools by simp
next
  case (CallTool name arguments)
  have "snd (handle factory (CallTool name arguments) s) = snd (call_tool factory name arguments s)"
    by (simp split: prod.splits sum.splits)
  then show ?thesis using call_tool_frame [OF assms(1)] CallTool by simp
next
  case (SetKwargs kwargs)
  then show ?thesis using assms(2) by simp
qed

lemma handle_initialized:
  assumes "terminal_toolkit s = Some tk"
  shows "terminal_toolkit (snd (handle factory r s)) = Some tk
       \<and> factory_calls (snd (handle factory r s)) = factory_calls s"
proof (cases "is_SetKwargs r")
  case True
  then show ?thesis using assms by (cases r) simp_all
next
  case False
  show ?thesis
    using handle_frame [OF ensure_toolkit_Some [OF assms] False] assms by simp
qed

lemma serve_initialized:
  "terminal_toolkit s = Some tk \<Longrightarrow>
   terminal_toolkit (snd (serve factory rs s)) = Some tk
   \<and> factory_calls (snd (serve factory rs s)) = factory_calls s"
proof (induction rs arbitrary: s)
  case Nil
  then show ?case by simp
next
  case (Cons r rs)
  obtain out s1 where h: "handle factory r s = (out, s1)"
    by (cases "handle factory r s")
  have s1: "terminal_toolkit s1 = Some tk" "factory_calls s1 = factory_calls s"
    using handle_initialized [OF Cons.prems, of factory r] h by simp_all
  have "snd (serve factory (r # rs) s) = snd (serve factory rs s1)"
    by (simp add: h split: prod.splits)
  then show ?case using Cons.IH [OF s1(1)] s1(2) by simp
qed

subsection \<open>The example states, evaluated\<close>

lemma ready_ensure: "ensure_toolkit example_factory ready_state = (Inr (), ready_state)"
  by (simp add: ensure_toolkit_def ready_state_def)

lemma ready_toolkit: "terminal_toolkit ready_state = Some full_toolkit"
  by (simp add: ready_state_def)

lemma ready_world: "world ready_state = []"
  by (simp add: ready_state_def)

lemma ready_logged: "logged ready_state = []"
  by (simp add: ready_state_def)

lemma ready_world_same: "ready_state\<lparr>world := []\<rparr> = ready_state"
  by (simp add: ready_state_def)

lemma py_str_42: "py_str (PInt 42) = Inr ''42''"
  by (simp add: str_int_def str_nat.simps digit_chr_def)

section \<open>The claims\<close>

subsection \<open>C1: required parameters and the parameter mapping\<close>

text \<open>
  C1. For the callable at position \<open>i\<close> of the registry, with the parameters \<open>ps\<close> that
  \<^verbatim>\<open>inspect.signature\<close> shows (their names distinct, as in every Python signature),
  the descriptor that \<open>list_tools\<close> returns at position \<open>i\<close> has \<open>required\<close> equal to
  the names of the parameters without a default, in declaration order, and as a set
  exactly those names; the keys of \<open>properties\<close> are the names of all of \<open>ps\<close>; the
  schema of every parameter records its default (none when it has none), and a
  parameter is in \<open>required\<close> exactly when it has no default.
\<close>

theorem C1_required_and_parameters:
  assumes "list_tools factory s = (Inr ts, s')"
    and "terminal_toolkit s' = Some tk"
    and "i < length ts"
    and "inspect_signature (get_tools tk ! i) = Inr ps"
    and "distinct (map p_name ps)"
  shows "required (inputSchema (ts ! i)) = map p_name (filter (\<lambda>p. p_default p = None) ps)
       \<and> set (required (inputSchema (ts ! i))) = {p_name p |p. p \<in> set ps \<and> p_default p = None}
       \<and> map fst (properties (inputSchema (ts ! i))) = map p_name ps
       \<and> (\<forall>p \<in> set ps.
            map_option pi_default (map_of (properties (inputSchema (ts ! i))) (p_name p))
              = Some (p_default p)
            \<and> (p_name p \<in> set (required (inputSchema (ts ! i))) \<longleftrightarrow> p_default p = None))"
proof -
  note shape = descriptor_shape [OF assms(1,2,3,4)]
  have props: "properties (inputSchema (ts ! i)) = map (\<lambda>p. (p_name p, param_info_of p)) ps"
    by (simp add: shape parameters_loop_distinct_nil [OF assms(5)])
  have req: "required (inputSchema (ts ! i)) = required_names ps"
    by (simp add: shape)
  have a: "required (inputSchema (ts ! i)) = map p_name (filter (\<lambda>p. p_default p = None) ps)"
    by (simp add: req required_names_def)
  have b: "set (required (inputSchema (ts ! i))) = {p_name p |p. p \<in> set ps \<and> p_default p = None}"
    by (auto simp: req required_names_def)
  have c: "map fst (properties (inputSchema (ts ! i))) = map p_name ps"
    by (simp add: props comp_def)
  have d: "\<forall>p \<in> set ps.
            map_option pi_default (map_of (properties (inputSchema (ts ! i))) (p_name p))
              = Some (p_default p)
            \<and> (p_name p \<in> set (required (inputSchema (ts ! i))) \<longleftrightarrow> p_default p = None)"
  proof (intro ballI conjI)
    fix p
    assume p: "p \<in> set ps"
    have "map_of (properties (inputSchema (ts ! i))) (p_name p) = Some (param_info_of p)"
      by (simp add: props map_of_parameters [OF assms(5) p])
    moreover have "pi_default (param_info_of p) = p_default p"
      by (simp add: param_info_of_def Let_def)
    ultimately show "map_option pi_default (map_of (properties (inputSchema (ts ! i))) (p_name p))
              = Some (p_default p)"
      by simp
    show "p_name p \<in> set (required (inputSchema (ts ! i))) \<longleftrightarrow> p_default p = None"
      using required_names_iff [OF assms(5) p] by (simp add: req)
  qed
  from a b c d show ?thesis by blast
qed

text \<open>
  The first listing of the example toolkit: for the bound method \<open>shell_exec\<close> the
  parameters \<open>id\<close>, \<open>command\<close> and \<open>timeout\<close> are required, all six are keys, and
  \<open>block\<close> carries its default \<^verbatim>\<open>True\<close> and is not required.
\<close>

theorem C1_witness:
  "list_tools example_factory (initial_state []) =
     (Inr [shell_exec_descriptor, echo_descriptor, ping_descriptor, blank_descriptor], listed_state)
   \<and> inspect_signature (get_tools safe_toolkit ! 0) = Inr shell_exec_params
   \<and> distinct (map p_name shell_exec_params)
   \<and> required (inputSchema shell_exec_descriptor) = [''id'', ''command'', ''timeout'']
   \<and> map fst (properties (inputSchema shell_exec_descriptor)) =
       [''id'', ''command'', ''block'', ''retries'', ''timeout'', ''env'']
   \<and> map_option pi_default (map_of (properties (inputSchema shell_exec_descriptor)) ''block'')
       = Some (Some (PBool True))
   \<and> ''block'' \<notin> set (required (inputSchema shell_exec_descriptor))"
proof -
  have sig: "inspect_signature (get_tools safe_toolkit ! 0) = Inr shell_exec_params"
    by (simp add: safe_toolkit_def shell_exec_signature)
  have len: "(0::nat) < length [shell_exec_descriptor, echo_descriptor, ping_descriptor, blank_descriptor]"
    by simp
  note main = C1_required_and_parameters
    [OF listing_example listed_toolkit len sig shell_exec_params_distinct, unfolded nth_Cons_0]
  have req: "required (inputSchema shell_exec_descriptor) = [''id'', ''command'', ''timeout'']"
    using conjunct1 [OF main] by (simp add: shell_exec_params_def)
  have keys: "map fst (properties (inputSchema shell_exec_descriptor)) =
       [''id'', ''command'', ''block'', ''retries'', ''timeout'', ''env'']"
    using conjunct1 [OF conjunct2 [OF conjunct2 [OF main]]] by (simp add: shell_exec_params_def)
  have block: "\<lparr>p_name = ''block'', p_kind = POSITIONAL_OR_KEYWORD, p_annotation = AnnBool,
       p_default = Some (PBool True)\<rparr> \<in> set shell_exec_params"
    by (simp add: shell_exec_params_def)
  have dflt: "map_option pi_default (map_of (properties (inputSchema shell_exec_descriptor)) ''block'')
       = Some (Some (PBool True))
     \<and> ''block'' \<notin> set (required (inputSchema shell_exec_descriptor))"
    using bspec [OF conjunct2 [OF conjunct2 [OF conjunct2 [OF main]]] block] by simp
  from listing_example sig shell_exec_params_distinct req keys dflt show ?thesis by blast
qed

subsection \<open>C2: a tool that raises\<close>

text \<open>
  C2, as the code has it. When the registry is there (built before, or built by this
  request), the callable named \<open>name\<close> exists and its call raises an exception \<open>e\<close>
  that derives from \<^verbatim>\<open>Exception\<close>, then \<open>call_tool\<close> raises nothing: it returns the
  single text block \<^verbatim>\<open>Error calling tool <name>: <str(e)>\<close>, appends that line to
  the log as an error, and leaves the registry in place for the requests that follow.
\<close>

theorem C2_tool_exception_caught:
  assumes "ensure_toolkit factory s = (Inr (), s1)"
    and "terminal_toolkit s1 = Some tk"
    and "find_target name (get_tools tk) = Some f"
    and "fn_call f arguments (world s1) = (Inl e, w')"
    and "isinstance_Exception e"
  shows "call_tool factory name arguments s =
           (Inr [TextContent ''text'' (''Error calling tool '' @ name @ '': '' @ exc_str e)],
            s1\<lparr>world := w',
               logged := logged s1 @
                 [(ERROR, ''Error calling tool '' @ name @ '': '' @ exc_str e)]\<rparr>)
       \<and> terminal_toolkit (snd (call_tool factory name arguments s)) = Some tk"
  by (simp add: call_tool_after_ensure [OF assms(1)] call_tool_try_raises [OF assms(2,3,4)]
      assms(2,5))

text \<open>
  The tool \<open>broken\<close> raises \<^verbatim>\<open>ValueError("bad input")\<close>: the response is the text
  \<^verbatim>\<open>Error calling tool broken: bad input\<close>, logged once, and the registry stays.
\<close>

theorem C2_witness:
  "ensure_toolkit example_factory ready_state = (Inr (), ready_state)
   \<and> find_target ''broken'' (get_tools full_toolkit) = Some broken
   \<and> fn_call broken [] (world ready_state) = (Inl (value_error ''bad input''), [])
   \<and> isinstance_Exception (value_error ''bad input'')
   \<and> call_tool example_factory ''broken'' [] ready_state =
       (Inr [TextContent ''text'' ''Error calling tool broken: bad input''],
        ready_state\<lparr>world := [],
          logged := [(ERROR, ''Error calling tool broken: bad input'')]\<rparr>)
   \<and> terminal_toolkit (snd (call_tool example_factory ''broken'' [] ready_state))
       = Some full_toolkit"
proof -
  have found: "find_target ''broken'' (get_tools full_toolkit) = Some broken"
    by (simp add: full_toolkit_def shell_exec_def echo_def broken_def)
  have raised: "fn_call broken [] (world ready_state) = (Inl (value_error ''bad input''), [])"
    by (simp add: broken_def raise_call_def ready_world)
  have exc: "isinstance_Exception (value_error ''bad input'')"
    by (simp add: value_error_def)
  note main = C2_tool_exception_caught [OF ready_ensure ready_toolkit found raised exc]
  have "exc_str (value_error ''bad input'') = ''bad input''"
    by (simp add: value_error_def)
  then have "call_tool example_factory ''broken'' [] ready_state =
       (Inr [TextContent ''text'' ''Error calling tool broken: bad input''],
        ready_state\<lparr>world := [],
          logged := [(ERROR, ''Error calling tool broken: bad input'')]\<rparr>)"
    using conjunct1 [OF main] by (simp add: ready_state_def)
  with ready_ensure found raised exc conjunct2 [OF main] show ?thesis by blast
qed

text \<open>
  The specification says every exception of the callable is caught. The tool \<open>shell_exit\<close>
  raises \<^verbatim>\<open>SystemExit\<close>, which does not derive from \<^verbatim>\<open>Exception\<close>:
  \<^verbatim>\<open>except Exception\<close> lets it pass and it leaves \<open>call_tool\<close>.
\<close>

theorem C2_counterexample:
  "find_target ''shell_exit'' (get_tools full_toolkit) = Some shell_exit
   \<and> fn_call shell_exit [] (world ready_state) = (Inl (PyExc (BaseException_only ''SystemExit'') ''1''), [])
   \<and> fst (call_tool example_factory ''shell_exit'' [] ready_state)
       = Inl (PyExc (BaseException_only ''SystemExit'') ''1'')"
proof -
  have found: "find_target ''shell_exit'' (get_tools full_toolkit) = Some shell_exit"
    by (simp add: full_toolkit_def shell_exec_def echo_def broken_def shell_exit_def)
  have raised: "fn_call shell_exit [] (world ready_state)
      = (Inl (PyExc (BaseException_only ''SystemExit'') ''1''), [])"
    by (simp add: shell_exit_def raise_call_def ready_world)
  have "fst (call_tool example_factory ''shell_exit'' [] ready_state)
       = Inl (PyExc (BaseException_only ''SystemExit'') ''1'')"
    by (simp add: call_tool_after_ensure [OF ready_ensure]
        call_tool_try_raises [OF ready_toolkit found raised])
  with found raised show ?thesis by blast
qed

subsection \<open>C3: an unknown tool name\<close>

text \<open>
  C3. When the registry is there (built before, or built by this request) and no
  registered callable has the name \<open>name\<close>, then \<open>call_tool\<close> raises nothing and
  returns the single text block \<^verbatim>\<open>Tool '<name>' not found\<close>; the state is the one the
  initialization step left, nothing is logged and no callable runs.
\<close>

theorem C3_unknown_tool:
  assumes "ensure_toolkit factory s = (Inr (), s1)"
    and "terminal_toolkit s1 = Some tk"
    and "name \<notin> fn_name ` set (get_tools tk)"
  shows "call_tool factory name arguments s =
           (Inr [TextContent ''text'' (''Tool '' @ [CHR 0x27] @ name @ [CHR 0x27] @ '' not found'')],
            s1)"
proof -
  have "find_target name (get_tools tk) = None"
    using assms(3) by (simp add: find_target_None)
  then show ?thesis
    by (simp add: call_tool_after_ensure [OF assms(1)] call_tool_try_missing [OF assms(2)])
qed

text \<open>
  The name \<open>nope\<close> is not registered: the text is exactly \<^verbatim>\<open>Tool 'nope' not found\<close>.
\<close>

theorem C3_witness:
  "ensure_toolkit example_factory ready_state = (Inr (), ready_state)
   \<and> ''nope'' \<notin> fn_name ` set (get_tools full_toolkit)
   \<and> call_tool example_factory ''nope'' [] ready_state =
       (Inr [TextContent ''text'' ''Tool 'nope' not found''], ready_state)"
proof -
  have missing: "''nope'' \<notin> fn_name ` set (get_tools full_toolkit)"
    by (simp add: full_toolkit_def shell_exec_def echo_def broken_def shell_exit_def
        count_def ping_def blank_def)
  from C3_unknown_tool [OF ready_ensure ready_toolkit missing, of "[]"]
  have "call_tool example_factory ''nope'' [] ready_state =
       (Inr [TextContent ''text'' ''Tool 'nope' not found''], ready_state)"
    by simp
  with ready_ensure missing show ?thesis by blast
qed

subsection \<open>C4: the shape of every response\<close>

text \<open>
  C4. Every response that \<open>call_tool\<close> returns is a list of exactly one block of type
  \<^verbatim>\<open>text\<close>. When the callable was found and returned a value \<open>v\<close>, the text of that
  block is \<open>v\<close> itself if \<open>v\<close> is a string, and \<^verbatim>\<open>str(v)\<close> for any other value.
\<close>

theorem C4_single_text_block:
  assumes "call_tool factory name arguments s = (Inr response, s')"
  shows "(\<exists>t. response = [TextContent ''text'' t])
       \<and> (\<forall>s1 tk f v w'.
            ensure_toolkit factory s = (Inr (), s1) \<and> terminal_toolkit s1 = Some tk
            \<and> find_target name (get_tools tk) = Some f
            \<and> fn_call f arguments (world s1) = (Inr v, w') \<longrightarrow>
            (\<forall>t. v = PStr t \<longrightarrow> response = [TextContent ''text'' t])
            \<and> (\<forall>t. py_str v = Inr t \<longrightarrow> response = [TextContent ''text'' t]))"
proof -
  obtain s1 where ens: "ensure_toolkit factory s = (Inr (), s1)"
    using call_tool_Inr_ensure [OF assms] by blast
  note unfolded = assms [unfolded call_tool_after_ensure [OF ens]]
  have a: "\<exists>t. response = [TextContent ''text'' t]"
  proof (cases "call_tool_try name arguments s1")
    case (Pair r s2)
    show ?thesis
    proof (cases r)
      case (Inl e)
      then show ?thesis using unfolded Pair by (auto split: if_splits)
    next
      case (Inr resp)
      then have "resp = response" using unfolded Pair by simp
      then show ?thesis using call_tool_try_single Pair Inr by blast
    qed
  qed
  have b: "\<forall>s1 tk f v w'.
            ensure_toolkit factory s = (Inr (), s1) \<and> terminal_toolkit s1 = Some tk
            \<and> find_target name (get_tools tk) = Some f
            \<and> fn_call f arguments (world s1) = (Inr v, w') \<longrightarrow>
            (\<forall>t. v = PStr t \<longrightarrow> response = [TextContent ''text'' t])
            \<and> (\<forall>t. py_str v = Inr t \<longrightarrow> response = [TextContent ''text'' t])"
  proof (intro allI impI, elim conjE)
    fix s1' tk f v w'
    assume ens': "ensure_toolkit factory s = (Inr (), s1')"
      and tk: "terminal_toolkit s1' = Some tk"
      and found: "find_target name (get_tools tk) = Some f"
      and ret: "fn_call f arguments (world s1') = (Inr v, w')"
    have same: "s1' = s1" using ens ens' by simp
    have str: "\<forall>t. py_str v = Inr t \<longrightarrow> response = [TextContent ''text'' t]"
      using unfolded call_tool_try_returns [OF tk found ret, of ] by (auto simp: same)
    moreover have "\<forall>t. v = PStr t \<longrightarrow> response = [TextContent ''text'' t]"
      using str by simp
    ultimately show "(\<forall>t. v = PStr t \<longrightarrow> response = [TextContent ''text'' t])
            \<and> (\<forall>t. py_str v = Inr t \<longrightarrow> response = [TextContent ''text'' t])"
      by blast
  qed
  from a b show ?thesis by blast
qed

text \<open>
  Three responses of one block each: \<open>echo\<close> returns the string \<open>hi\<close>, which is the
  text as it is; \<open>count\<close> returns the number 42, whose text is \<open>42\<close>; \<open>broken\<close>
  raises, and the text is the error line.
\<close>

theorem C4_witness:
  "call_tool example_factory ''echo'' [(''x'', PStr ''hi'')] ready_state =
     (Inr [TextContent ''text'' ''hi''], ready_state)
   \<and> call_tool example_factory ''count'' [] ready_state =
     (Inr [TextContent ''text'' ''42''], ready_state)
   \<and> call_tool example_factory ''broken'' [] ready_state =
       (Inr [TextContent ''text'' ''Error calling tool broken: bad input''],
        ready_state\<lparr>logged := [(ERROR, ''Error calling tool broken: bad input'')]\<rparr>)"
proof -
  have f1: "find_target ''echo'' (get_tools full_toolkit) = Some echo"
    by (simp add: full_toolkit_def shell_exec_def echo_def)
  have r1: "fn_call echo [(''x'', PStr ''hi'')] (world ready_state) = (Inr (PStr ''hi''), [])"
    by (simp add: echo_def echo_call_def ready_world)
  have c1: "call_tool example_factory ''echo'' [(''x'', PStr ''hi'')] ready_state =
     (Inr [TextContent ''text'' ''hi''], ready_state)"
    by (simp add: call_tool_after_ensure [OF ready_ensure]
        call_tool_try_returns [OF ready_toolkit f1 r1] ready_world_same)
  have f2: "find_target ''count'' (get_tools full_toolkit) = Some count"
    by (simp add: full_toolkit_def shell_exec_def echo_def broken_def shell_exit_def count_def)
  have r2: "fn_call count [] (world ready_state) = (Inr (PInt 42), [])"
    by (simp add: count_def return_call_def ready_world)
  obtain response where c2: "call_tool example_factory ''count'' [] ready_state =
     (Inr response, ready_state)"
    by (simp add: call_tool_after_ensure [OF ready_ensure]
        call_tool_try_returns [OF ready_toolkit f2 r2] py_str_42 ready_world_same)
  have "response = [TextContent ''text'' ''42'']"
    using conjunct2 [OF C4_single_text_block [OF c2]] ready_ensure ready_toolkit f2 r2 py_str_42
    by blast
  then have c2': "call_tool example_factory ''count'' [] ready_state =
     (Inr [TextContent ''text'' ''42''], ready_state)"
    using c2 by simp
  have f3: "find_target ''broken'' (get_tools full_toolkit) = Some broken"
    by (simp add: full_toolkit_def shell_exec_def echo_def broken_def)
  have r3: "fn_call broken [] (world ready_state) = (Inl (value_error ''bad input''), [])"
    by (simp add: broken_def raise_call_def ready_world)
  have c3: "call_tool example_factory ''broken'' [] ready_state =
       (Inr [TextContent ''text'' ''Error calling tool broken: bad input''],
        ready_state\<lparr>logged := [(ERROR, ''Error calling tool broken: bad input'')]\<rparr>)"
    by (simp add: call_tool_after_ensure [OF ready_ensure]
        call_tool_try_raises [OF ready_toolkit f3 r3] value_error_def ready_world_same
        ready_logged)
  from c1 c2' c3 show ?thesis by blast
qed

subsection \<open>C5: the registry is built once\<close>

text \<open>
  C5, as the code has it. A registry that is built stays: over any sequence of
  requests and of assignments to \<^verbatim>\<open>toolkit_kwargs\<close>, the instance is the same one and the
  factory is not invoked again. When the registry is not built, the first request, be it
  \<open>ListTools\<close> or \<open>CallTool\<close>, invokes the factory with the configuration in force
  at that moment; when that invocation succeeds, the instance it returns is the registry
  after this request and after every later one, whatever configuration is assigned
  afterwards, and the factory has been invoked exactly once.
\<close>

theorem C5_registry_built_once:
  "(terminal_toolkit s = Some tk \<longrightarrow>
      terminal_toolkit (snd (serve factory rs s)) = Some tk
      \<and> factory_calls (snd (serve factory rs s)) = factory_calls s)
   \<and> (terminal_toolkit s = None \<and> fst (factory (toolkit_kwargs s) (world s)) = Inr tk
       \<and> \<not> is_SetKwargs r \<longrightarrow>
      terminal_toolkit (snd (handle factory r s)) = Some tk
      \<and> terminal_toolkit (snd (serve factory (r # rs) s)) = Some tk
      \<and> factory_calls (snd (serve factory (r # rs) s)) = Suc (factory_calls s))"
proof -
  have kept: "terminal_toolkit s = Some tk \<longrightarrow>
      terminal_toolkit (snd (serve factory rs s)) = Some tk
      \<and> factory_calls (snd (serve factory rs s)) = factory_calls s"
    using serve_initialized by blast
  have first: "terminal_toolkit (snd (handle factory r s)) = Some tk
      \<and> terminal_toolkit (snd (serve factory (r # rs) s)) = Some tk
      \<and> factory_calls (snd (serve factory (r # rs) s)) = Suc (factory_calls s)"
    if none: "terminal_toolkit s = None"
      and succeeds: "fst (factory (toolkit_kwargs s) (world s)) = Inr tk"
      and request: "\<not> is_SetKwargs r"
  proof -
    obtain w' where built: "factory (toolkit_kwargs s) (world s) = (Inr tk, w')"
      using succeeds by (cases "factory (toolkit_kwargs s) (world s)") auto
    note ens = ensure_toolkit_built [where factory = factory and s = s, OF none built]
    obtain out s1 where h: "handle factory r s = (out, s1)"
      by (cases "handle factory r s")
    have s1: "terminal_toolkit s1 = Some tk" "factory_calls s1 = Suc (factory_calls s)"
      using handle_frame [OF ens request] h by simp_all
    have rest: "snd (serve factory (r # rs) s) = snd (serve factory rs s1)"
      by (simp add: h split: prod.splits)
    show ?thesis
      using serve_initialized [OF s1(1), of factory rs] rest s1 h by simp
  qed
  from kept first show ?thesis by blast
qed

text \<open>
  From the initial state the first request is a call; the configuration is replaced
  twice afterwards, once by one the factory would refuse: the registry stays the one
  built from the first configuration and the factory has been invoked once. From a
  state whose registry is built, a new configuration and two requests leave the registry
  and the count of invocations as they were.
\<close>

theorem C5_witness:
  "terminal_toolkit (initial_state []) = None
   \<and> fst (example_factory (toolkit_kwargs (initial_state [])) (world (initial_state []))) = Inr safe_toolkit
   \<and> terminal_toolkit (snd (serve example_factory
        [CallTool ''ping'' [], SetKwargs unsafe_kwargs, ListTools, SetKwargs bad_kwargs,
         CallTool ''echo'' [(''x'', PStr ''hi'')], ListTools]
        (initial_state []))) = Some safe_toolkit
   \<and> factory_calls (snd (serve example_factory
        [CallTool ''ping'' [], SetKwargs unsafe_kwargs, ListTools, SetKwargs bad_kwargs,
         CallTool ''echo'' [(''x'', PStr ''hi'')], ListTools]
        (initial_state []))) = 1
   \<and> terminal_toolkit ready_state = Some full_toolkit
   \<and> terminal_toolkit (snd (serve example_factory
        [SetKwargs bad_kwargs, ListTools, CallTool ''broken'' []] ready_state)) = Some full_toolkit
   \<and> factory_calls (snd (serve example_factory
        [SetKwargs bad_kwargs, ListTools, CallTool ''broken'' []] ready_state)) = 1"
proof -
  have none: "terminal_toolkit (initial_state []) = None"
    by (simp add: initial_state_def)
  have built: "fst (example_factory (toolkit_kwargs (initial_state [])) (world (initial_state [])))
      = Inr safe_toolkit"
    by (simp add: initial_state_def example_factory_def)
  have req: "\<not> is_SetKwargs (CallTool ''ping'' [])"
    by simp
  have calls: "Suc (factory_calls (initial_state [])) = 1"
    by (simp add: initial_state_def)
  note first = conjunct2 [OF C5_registry_built_once
    [where s = "initial_state []" and factory = example_factory and tk = safe_toolkit
       and r = "CallTool ''ping'' []"
       and rs = "[SetKwargs unsafe_kwargs, ListTools, SetKwargs bad_kwargs,
         CallTool ''echo'' [(''x'', PStr ''hi'')], ListTools]"],
    rule_format, OF conjI [OF none conjI [OF built req]], unfolded calls]
  have ready_calls: "factory_calls ready_state = 1"
    by (simp add: ready_state_def)
  note kept = conjunct1 [OF C5_registry_built_once
    [where s = ready_state and factory = example_factory and tk = full_toolkit
       and rs = "[SetKwargs bad_kwargs, ListTools, CallTool ''broken'' []]"],
    rule_format, OF ready_toolkit, unfolded ready_calls]
  from none built first ready_toolkit kept show ?thesis by blast
qed

text \<open>
  The specification says the factory is invoked exactly once across all requests. With a
  configuration the factory refuses, the registry stays unbuilt and each of two requests
  invokes the factory: two invocations, two exceptions.
\<close>

theorem C5_counterexample:
  "serve example_factory [ListTools, CallTool ''ping'' []] misconfigured_state =
     ([Raised (value_error ''bad working directory''),
       Raised (value_error ''bad working directory'')],
      misconfigured_state
        \<lparr>logged := [(INFO, ''Initializing Terminal Toolkit''),
                    (INFO, ''Initializing Terminal Toolkit'')],
         factory_calls := 2\<rparr>)
   \<and> factory_calls (snd (serve example_factory [ListTools, CallTool ''ping'' []]
        misconfigured_state)) = 2"
  by (simp add: list_tools_def call_tool_def ensure_toolkit_def initialize_toolkit_def
      misconfigured_state_def example_factory_def bad_kwargs_def Let_def)

subsection \<open>C6: the description\<close>

text \<open>
  C6, as the code has it. In the descriptor at position \<open>i\<close> of a listing, the
  description is the first line of the docstring of the callable, stripped, when the
  docstring is not empty. When the callable has no docstring or an empty one, and its
  name is not empty and has no whitespace (as every identifier), the description is
  \<^verbatim>\<open>Execute <name>\<close>.
\<close>

theorem C6_description:
  assumes "list_tools factory s = (Inr ts, s')"
    and "terminal_toolkit s' = Some tk"
    and "i < length ts"
  shows "(\<forall>d. fn_doc (get_tools tk ! i) = Some d \<and> d \<noteq> [] \<longrightarrow>
            tool_description (ts ! i) = py_strip (first_line d))
       \<and> ((fn_doc (get_tools tk ! i) = None \<or> fn_doc (get_tools tk ! i) = Some [])
            \<and> fn_name (get_tools tk ! i) \<noteq> []
            \<and> (\<forall>c \<in> set (fn_name (get_tools tk ! i)). \<not> py_isspace c) \<longrightarrow>
            tool_description (ts ! i) = ''Execute '' @ fn_name (get_tools tk ! i))"
proof -
  obtain ps where sig: "inspect_signature (get_tools tk ! i) = Inr ps"
    using descriptor_signature [OF assms] by blast
  note shape = descriptor_shape [OF assms sig]
  have descr: "tool_description (ts ! i) = py_strip (first_line (func_doc_of (get_tools tk ! i)))"
    by (simp add: shape)
  have a: "\<forall>d. fn_doc (get_tools tk ! i) = Some d \<and> d \<noteq> [] \<longrightarrow>
            tool_description (ts ! i) = py_strip (first_line d)"
    by (simp add: descr func_doc_of_def)
  have b: "(fn_doc (get_tools tk ! i) = None \<or> fn_doc (get_tools tk ! i) = Some [])
            \<and> fn_name (get_tools tk ! i) \<noteq> []
            \<and> (\<forall>c \<in> set (fn_name (get_tools tk ! i)). \<not> py_isspace c) \<longrightarrow>
            tool_description (ts ! i) = ''Execute '' @ fn_name (get_tools tk ! i)"
  proof (intro impI, elim conjE)
    assume doc: "fn_doc (get_tools tk ! i) = None \<or> fn_doc (get_tools tk ! i) = Some []"
      and ne: "fn_name (get_tools tk ! i) \<noteq> []"
      and solid: "\<forall>c \<in> set (fn_name (get_tools tk ! i)). \<not> py_isspace c"
    have "func_doc_of (get_tools tk ! i) = ''Execute '' @ fn_name (get_tools tk ! i)"
      using doc by (auto simp: func_doc_of_def)
    then show "tool_description (ts ! i) = ''Execute '' @ fn_name (get_tools tk ! i)"
      using fallback_description [OF ne solid] by (simp only: descr)
  qed
  from a b show ?thesis by blast
qed

text \<open>
  \<open>echo\<close> has a docstring of two lines with blanks around the first: its description
  is \<^verbatim>\<open>Echo the text back.\<close>; \<open>ping\<close> has no docstring: its description is
  \<^verbatim>\<open>Execute ping\<close>.
\<close>

theorem C6_witness:
  "list_tools example_factory (initial_state []) =
     (Inr [shell_exec_descriptor, echo_descriptor, ping_descriptor, blank_descriptor], listed_state)
   \<and> fn_doc (get_tools safe_toolkit ! 1) = Some (''  Echo the text back.  '' @ [CHR 0x0A] @ ''Args: x'')
   \<and> tool_description echo_descriptor = ''Echo the text back.''
   \<and> fn_doc (get_tools safe_toolkit ! 2) = None
   \<and> fn_name (get_tools safe_toolkit ! 2) = ''ping''
   \<and> tool_description ping_descriptor = ''Execute ping''"
proof -
  have len1: "(1::nat) < length [shell_exec_descriptor, echo_descriptor, ping_descriptor, blank_descriptor]"
    and len2: "(2::nat) < length [shell_exec_descriptor, echo_descriptor, ping_descriptor, blank_descriptor]"
    by simp_all
  have doc1: "fn_doc (get_tools safe_toolkit ! 1) = Some (''  Echo the text back.  '' @ [CHR 0x0A] @ ''Args: x'')"
    by (simp add: safe_toolkit_def echo_def)
  have doc2: "fn_doc (get_tools safe_toolkit ! 2) = None"
    and name2: "fn_name (get_tools safe_toolkit ! 2) = ''ping''"
    by (simp_all add: safe_toolkit_def ping_def)
  have solid: "fn_name (get_tools safe_toolkit ! 2) \<noteq> []
     \<and> (\<forall>c \<in> set (fn_name (get_tools safe_toolkit ! 2)). \<not> py_isspace c)"
    by (simp add: name2 py_isspace_def)
  have "tool_description ([shell_exec_descriptor, echo_descriptor, ping_descriptor, blank_descriptor] ! 1)
      = py_strip (first_line (''  Echo the text back.  '' @ [CHR 0x0A] @ ''Args: x''))"
    using conjunct1 [OF C6_description [OF listing_example listed_toolkit len1]] doc1 by simp
  then have echo: "tool_description echo_descriptor = ''Echo the text back.''"
    by (simp add: first_line_def py_strip_def py_isspace_def)
  have "tool_description ([shell_exec_descriptor, echo_descriptor, ping_descriptor, blank_descriptor] ! 2)
      = ''Execute '' @ fn_name (get_tools safe_toolkit ! 2)"
    using conjunct2 [OF C6_description [OF listing_example listed_toolkit len2]] doc2 solid by blast
  then have ping: "tool_description ping_descriptor = ''Execute ping''"
    by (simp add: name2)
  from listing_example doc1 echo doc2 name2 ping show ?thesis by blast
qed

text \<open>
  The specification says the description is the stripped first line of the docstring
  of every callable that has one. The docstring of \<open>blank\<close> is the empty string, whose first
  line is empty; the description is \<^verbatim>\<open>Execute blank\<close>.
\<close>

theorem C6_counterexample:
  "list_tools example_factory (initial_state []) =
     (Inr [shell_exec_descriptor, echo_descriptor, ping_descriptor, blank_descriptor], listed_state)
   \<and> terminal_toolkit listed_state = Some safe_toolkit
   \<and> fn_doc (get_tools safe_toolkit ! 3) = Some []
   \<and> tool_description ([shell_exec_descriptor, echo_descriptor, ping_descriptor, blank_descriptor] ! 3)
       = ''Execute blank''
   \<and> tool_description ([shell_exec_descriptor, echo_descriptor, ping_descriptor, blank_descriptor] ! 3)
       \<noteq> py_strip (first_line [])"
  using listing_example listed_toolkit
  by (simp add: safe_toolkit_def blank_def blank_descriptor_def first_line_def py_strip_def)

subsection \<open>C7: the surfaced kind of a parameter\<close>

text \<open>
  C7. In the descriptor at position \<open>i\<close> of a listing, the type of every parameter
  schema is \<^verbatim>\<open>string\<close>, \<^verbatim>\<open>number\<close> or \<^verbatim>\<open>boolean\<close>; and for every parameter of the
  signature it is \<^verbatim>\<open>string\<close> for the annotation \<^verbatim>\<open>str\<close>, \<^verbatim>\<open>number\<close> for \<^verbatim>\<open>int\<close>,
  \<^verbatim>\<open>boolean\<close> for \<^verbatim>\<open>bool\<close>, and \<^verbatim>\<open>string\<close> for no annotation and for any other
  annotation.
\<close>

theorem C7_surfaced_kind:
  assumes "list_tools factory s = (Inr ts, s')"
    and "terminal_toolkit s' = Some tk"
    and "i < length ts"
    and "inspect_signature (get_tools tk ! i) = Inr ps"
    and "distinct (map p_name ps)"
  shows "(\<forall>info \<in> snd ` set (properties (inputSchema (ts ! i))).
            pi_type info = ''string'' \<or> pi_type info = ''number'' \<or> pi_type info = ''boolean'')
       \<and> (\<forall>p \<in> set ps.
            map_option pi_type (map_of (properties (inputSchema (ts ! i))) (p_name p)) =
              Some (case p_annotation p of
                      AnnStr \<Rightarrow> ''string''
                    | AnnInt \<Rightarrow> ''number''
                    | AnnBool \<Rightarrow> ''boolean''
                    | AnnEmpty \<Rightarrow> ''string''
                    | AnnOther other \<Rightarrow> ''string''))"
proof -
  note shape = descriptor_shape [OF assms(1,2,3,4)]
  have props: "properties (inputSchema (ts ! i)) = map (\<lambda>p. (p_name p, param_info_of p)) ps"
    by (simp add: shape parameters_loop_distinct_nil [OF assms(5)])
  have a: "\<forall>info \<in> snd ` set (properties (inputSchema (ts ! i))).
            pi_type info = ''string'' \<or> pi_type info = ''number'' \<or> pi_type info = ''boolean''"
    by (auto simp: props pi_type_param_info_of)
  have b: "\<forall>p \<in> set ps.
            map_option pi_type (map_of (properties (inputSchema (ts ! i))) (p_name p)) =
              Some (case p_annotation p of
                      AnnStr \<Rightarrow> ''string''
                    | AnnInt \<Rightarrow> ''number''
                    | AnnBool \<Rightarrow> ''boolean''
                    | AnnEmpty \<Rightarrow> ''string''
                    | AnnOther other \<Rightarrow> ''string'')"
  proof
    fix p
    assume p: "p \<in> set ps"
    have "map_of (properties (inputSchema (ts ! i))) (p_name p) = Some (param_info_of p)"
      by (simp add: props map_of_parameters [OF assms(5) p])
    then show "map_option pi_type (map_of (properties (inputSchema (ts ! i))) (p_name p)) =
              Some (case p_annotation p of
                      AnnStr \<Rightarrow> ''string''
                    | AnnInt \<Rightarrow> ''number''
                    | AnnBool \<Rightarrow> ''boolean''
                    | AnnEmpty \<Rightarrow> ''string''
                    | AnnOther other \<Rightarrow> ''string'')"
      by (simp add: pi_type_param_info_of split: annotation.splits)
  qed
  from a b show ?thesis by blast
qed

text \<open>
  The parameters of \<open>shell_exec\<close>: \<open>command\<close> is a \<^verbatim>\<open>str\<close>, \<open>retries\<close> an
  \<^verbatim>\<open>int\<close>, \<open>block\<close> a \<^verbatim>\<open>bool\<close>, \<open>timeout\<close> a \<^verbatim>\<open>float\<close> and \<open>env\<close> has no
  annotation.
\<close>

theorem C7_witness:
  "list_tools example_factory (initial_state []) =
     (Inr [shell_exec_descriptor, echo_descriptor, ping_descriptor, blank_descriptor], listed_state)
   \<and> inspect_signature (get_tools safe_toolkit ! 0) = Inr shell_exec_params
   \<and> distinct (map p_name shell_exec_params)
   \<and> map_option pi_type (map_of (properties (inputSchema shell_exec_descriptor)) ''command'')
       = Some ''string''
   \<and> map_option pi_type (map_of (properties (inputSchema shell_exec_descriptor)) ''retries'')
       = Some ''number''
   \<and> map_option pi_type (map_of (properties (inputSchema shell_exec_descriptor)) ''block'')
       = Some ''boolean''
   \<and> map_option pi_type (map_of (properties (inputSchema shell_exec_descriptor)) ''timeout'')
       = Some ''string''
   \<and> map_option pi_type (map_of (properties (inputSchema shell_exec_descriptor)) ''env'')
       = Some ''string''"
proof -
  have sig: "inspect_signature (get_tools safe_toolkit ! 0) = Inr shell_exec_params"
    by (simp add: safe_toolkit_def shell_exec_signature)
  have len: "(0::nat) < length [shell_exec_descriptor, echo_descriptor, ping_descriptor, blank_descriptor]"
    by simp
  note main = C7_surfaced_kind
    [OF listing_example listed_toolkit len sig shell_exec_params_distinct, unfolded nth_Cons_0]
  note each = conjunct2 [OF main, unfolded shell_exec_params_def]
  have kinds: "map_option pi_type (map_of (properties (inputSchema shell_exec_descriptor)) ''command'')
       = Some ''string''
   \<and> map_option pi_type (map_of (properties (inputSchema shell_exec_descriptor)) ''retries'')
       = Some ''number''
   \<and> map_option pi_type (map_of (properties (inputSchema shell_exec_descriptor)) ''block'')
       = Some ''boolean''
   \<and> map_option pi_type (map_of (properties (inputSchema shell_exec_descriptor)) ''timeout'')
       = Some ''string''
   \<and> map_option pi_type (map_of (properties (inputSchema shell_exec_descriptor)) ''env'')
       = Some ''string''"
    using each by simp
  from listing_example sig shell_exec_params_distinct kinds show ?thesis by blast
qed

subsection \<open>C8: the receiver of a method\<close>

text \<open>
  C8. When the callable at position \<open>i\<close> is a bound method whose \<^verbatim>\<open>def\<close> declares the
  receiver as its first, positional parameter (the names of the parameters distinct), the
  descriptor at position \<open>i\<close> of the listing has the receiver neither among the keys of
  \<open>properties\<close> nor in \<open>required\<close>, and the keys of \<open>properties\<close> are the names of
  the other declared parameters, in order.
\<close>

theorem C8_receiver_excluded:
  assumes "list_tools factory s = (Inr ts, s')"
    and "terminal_toolkit s' = Some tk"
    and "i < length ts"
    and "fn_bound (get_tools tk ! i)"
    and "fn_params (get_tools tk ! i) = receiver # ps"
    and "p_kind receiver = POSITIONAL_OR_KEYWORD \<or> p_kind receiver = POSITIONAL_ONLY"
    and "distinct (map p_name (receiver # ps))"
  shows "p_name receiver \<notin> fst ` set (properties (inputSchema (ts ! i)))
       \<and> p_name receiver \<notin> set (required (inputSchema (ts ! i)))
       \<and> map fst (properties (inputSchema (ts ! i))) = map p_name ps"
proof -
  have sig: "inspect_signature (get_tools tk ! i) = Inr ps"
    using assms(4,5,6) by (auto simp: inspect_signature_def)
  have d: "distinct (map p_name ps)" and fresh: "p_name receiver \<notin> p_name ` set ps"
    using assms(7) by auto
  note shape = descriptor_shape [OF assms(1,2,3) sig]
  have props: "properties (inputSchema (ts ! i)) = map (\<lambda>p. (p_name p, param_info_of p)) ps"
    by (simp add: shape parameters_loop_distinct_nil [OF d])
  have keys: "map fst (properties (inputSchema (ts ! i))) = map p_name ps"
    by (simp add: props comp_def)
  have "fst ` set (properties (inputSchema (ts ! i))) = p_name ` set ps"
    using keys by (metis list.set_map)
  then have a: "p_name receiver \<notin> fst ` set (properties (inputSchema (ts ! i)))"
    using fresh by simp
  have "set (required (inputSchema (ts ! i))) \<subseteq> p_name ` set ps"
    by (auto simp: shape required_names_def)
  then have b: "p_name receiver \<notin> set (required (inputSchema (ts ! i)))"
    using fresh by blast
  from a b keys show ?thesis by blast
qed

text \<open>
  \<open>shell_exec\<close> is bound and declares \<open>self\<close> first: \<open>self\<close> is neither a key nor
  required, and the six other parameters are the keys.
\<close>

theorem C8_witness:
  "list_tools example_factory (initial_state []) =
     (Inr [shell_exec_descriptor, echo_descriptor, ping_descriptor, blank_descriptor], listed_state)
   \<and> fn_bound (get_tools safe_toolkit ! 0)
   \<and> fn_params (get_tools safe_toolkit ! 0) = self_param # shell_exec_params
   \<and> p_kind self_param = POSITIONAL_OR_KEYWORD
   \<and> distinct (map p_name (self_param # shell_exec_params))
   \<and> p_name self_param = ''self''
   \<and> ''self'' \<notin> fst ` set (properties (inputSchema shell_exec_descriptor))
   \<and> ''self'' \<notin> set (required (inputSchema shell_exec_descriptor))
   \<and> map fst (properties (inputSchema shell_exec_descriptor)) =
       [''id'', ''command'', ''block'', ''retries'', ''timeout'', ''env'']"
proof -
  have bound: "fn_bound (get_tools safe_toolkit ! 0)"
    by (simp add: safe_toolkit_def shell_exec_def)
  have params: "fn_params (get_tools safe_toolkit ! 0) = self_param # shell_exec_params"
    by (simp add: safe_toolkit_def shell_exec_def)
  have kind: "p_kind self_param = POSITIONAL_OR_KEYWORD"
    by (simp add: self_param_def)
  have name: "p_name self_param = ''self''"
    by (simp add: self_param_def)
  have dist: "distinct (map p_name (self_param # shell_exec_params))"
    by (simp add: self_param_def shell_exec_params_def)
  have len: "(0::nat) < length [shell_exec_descriptor, echo_descriptor, ping_descriptor, blank_descriptor]"
    by simp
  note main = C8_receiver_excluded
    [OF listing_example listed_toolkit len bound params disjI1 [OF kind] dist,
     unfolded nth_Cons_0 name]
  have keys: "map fst (properties (inputSchema shell_exec_descriptor)) =
       [''id'', ''command'', ''block'', ''retries'', ''timeout'', ''env'']"
    using conjunct2 [OF conjunct2 [OF main]] by (simp add: shell_exec_params_def)
  from listing_example bound params kind dist name main keys show ?thesis by blast
qed

subsection \<open>C9: required keys and names of a listing\<close>

text \<open>
  C9, as the code has it. In every descriptor of a listing, every name in \<open>required\<close>
  is a key of \<open>properties\<close>. The names of the descriptors are the names of the
  callables of the registry, in order; so they are pairwise distinct exactly when the
  names of the callables are.
\<close>

theorem C9_required_keys_and_names:
  assumes "list_tools factory s = (Inr ts, s')"
  shows "(\<forall>t \<in> set ts. set (required (inputSchema t)) \<subseteq> fst ` set (properties (inputSchema t)))
       \<and> (\<exists>tk. terminal_toolkit s' = Some tk
              \<and> map tool_name ts = map fn_name (get_tools tk)
              \<and> (distinct (map tool_name ts) \<longleftrightarrow> distinct (map fn_name (get_tools tk))))"
proof -
  obtain tk where tk: "terminal_toolkit s' = Some tk"
    and all2: "list_all2 (\<lambda>f t. infer_tool f = Inr t) (get_tools tk) ts"
    using list_tools_all2 [OF assms] by blast
  have a: "\<forall>t \<in> set ts. set (required (inputSchema t)) \<subseteq> fst ` set (properties (inputSchema t))"
  proof
    fix t
    assume "t \<in> set ts"
    then obtain i where "i < length ts" and "t = ts ! i"
      by (auto simp: in_set_conv_nth)
    then have "infer_tool (get_tools tk ! i) = Inr t"
      using all2 by (simp add: list_all2_conv_all_nth)
    then obtain ps where t: "properties (inputSchema t) = parameters_loop ps []"
        "required (inputSchema t) = required_names ps"
      by (auto simp: infer_tool_Inr)
    show "set (required (inputSchema t)) \<subseteq> fst ` set (properties (inputSchema t))"
      by (auto simp: t parameters_loop_keys required_names_def)
  qed
  have "list_all2 (\<lambda>f t. fn_name f = tool_name t) (get_tools tk) ts"
    using all2 by (rule list_all2_mono) (auto simp: infer_tool_Inr)
  then have names: "map tool_name ts = map fn_name (get_tools tk)"
    by (induction rule: list_all2_induct) auto
  from a tk names show ?thesis by auto
qed

text \<open>
  The listing of the example toolkit: the required names of \<open>shell_exec\<close> are keys,
  and the four names of the listing are the four distinct names of the callables.
\<close>

theorem C9_witness:
  "list_tools example_factory (initial_state []) =
     (Inr [shell_exec_descriptor, echo_descriptor, ping_descriptor, blank_descriptor], listed_state)
   \<and> set (required (inputSchema shell_exec_descriptor))
       \<subseteq> fst ` set (properties (inputSchema shell_exec_descriptor))
   \<and> map tool_name [shell_exec_descriptor, echo_descriptor, ping_descriptor, blank_descriptor]
       = [''shell_exec'', ''echo'', ''ping'', ''blank'']
   \<and> distinct (map tool_name [shell_exec_descriptor, echo_descriptor, ping_descriptor, blank_descriptor])"
proof -
  note main = C9_required_keys_and_names [OF listing_example]
  have req: "set (required (inputSchema shell_exec_descriptor))
       \<subseteq> fst ` set (properties (inputSchema shell_exec_descriptor))"
    using conjunct1 [OF main] by simp
  have names: "map tool_name [shell_exec_descriptor, echo_descriptor, ping_descriptor, blank_descriptor]
       = map fn_name (get_tools safe_toolkit)"
    using conjunct2 [OF main] by (auto simp: listed_toolkit)
  then have names': "map tool_name [shell_exec_descriptor, echo_descriptor, ping_descriptor, blank_descriptor]
       = [''shell_exec'', ''echo'', ''ping'', ''blank'']"
    by (simp add: safe_toolkit_def shell_exec_def echo_def ping_def blank_def)
  have "distinct (map tool_name [shell_exec_descriptor, echo_descriptor, ping_descriptor, blank_descriptor])"
    by (simp only: names') simp
  with listing_example req names' show ?thesis by blast
qed

text \<open>
  The specification says no two descriptors of a listing share a name. A registry that holds
  the callable \<open>ping\<close> twice is listed as two descriptors named \<open>ping\<close>.
\<close>

theorem C9_counterexample:
  "fst (list_tools twin_factory (initial_state [])) = Inr [ping_descriptor, ping_descriptor]
   \<and> map tool_name [ping_descriptor, ping_descriptor] = [''ping'', ''ping'']
   \<and> \<not> distinct (map tool_name [ping_descriptor, ping_descriptor])"
  by (simp add: list_tools_def ensure_toolkit_def initialize_toolkit_def initial_state_def
      twin_factory_def twin_toolkit_def Let_def infer_tool_def inspect_signature_def
      func_doc_of_def ping_def required_names_def py_strip_def py_isspace_def
      ping_descriptor_def)

subsection \<open>C10: a factory that raises\<close>

text \<open>
  C10. When the registry is not built and the factory raises \<open>e\<close>, both handlers raise
  \<open>e\<close> and return no response, whatever the class of \<open>e\<close>: the initialization of
  \<open>call_tool\<close> stands before its \<^verbatim>\<open>try\<close>. The state records the attempt (the info line
  and the invocation) and the registry stays unbuilt.
\<close>

theorem C10_construction_failure_propagates:
  assumes "terminal_toolkit s = None"
    and "factory (toolkit_kwargs s) (world s) = (Inl e, w')"
  shows "call_tool factory name arguments s =
           (Inl e, s\<lparr>logged := logged s @ [(INFO, ''Initializing Terminal Toolkit'')],
                     factory_calls := Suc (factory_calls s), world := w'\<rparr>)
       \<and> list_tools factory s =
           (Inl e, s\<lparr>logged := logged s @ [(INFO, ''Initializing Terminal Toolkit'')],
                     factory_calls := Suc (factory_calls s), world := w'\<rparr>)"
  by (simp add: call_tool_def list_tools_def
      ensure_toolkit_failed [where factory = factory and s = s, OF assms])

text \<open>
  The factory refuses the configuration with a \<^verbatim>\<open>ValueError\<close>, a class that
  \<^verbatim>\<open>except Exception\<close> would catch: it leaves \<open>call_tool\<close> and \<open>list_tools\<close> all
  the same.
\<close>

theorem C10_witness:
  "terminal_toolkit misconfigured_state = None
   \<and> example_factory (toolkit_kwargs misconfigured_state) (world misconfigured_state) =
       (Inl (value_error ''bad working directory''), [])
   \<and> isinstance_Exception (value_error ''bad working directory'')
   \<and> call_tool example_factory ''ping'' [] misconfigured_state =
       (Inl (value_error ''bad working directory''),
        misconfigured_state\<lparr>logged := [(INFO, ''Initializing Terminal Toolkit'')],
          factory_calls := 1\<rparr>)
   \<and> list_tools example_factory misconfigured_state =
       (Inl (value_error ''bad working directory''),
        misconfigured_state\<lparr>logged := [(INFO, ''Initializing Terminal Toolkit'')],
          factory_calls := 1\<rparr>)"
proof -
  have none: "terminal_toolkit misconfigured_state = None"
    by (simp add: misconfigured_state_def)
  have fails: "example_factory (toolkit_kwargs misconfigured_state) (world misconfigured_state) =
       (Inl (value_error ''bad working directory''), [])"
    by (simp add: misconfigured_state_def example_factory_def bad_kwargs_def)
  have exc: "isinstance_Exception (value_error ''bad working directory'')"
    by (simp add: value_error_def)
  note main = C10_construction_failure_propagates
    [where factory = example_factory and s = misconfigured_state, OF none fails]
  have call: "call_tool example_factory ''ping'' [] misconfigured_state =
       (Inl (value_error ''bad working directory''),
        misconfigured_state\<lparr>logged := [(INFO, ''Initializing Terminal Toolkit'')],
          factory_calls := 1\<rparr>)"
    using conjunct1 [OF main, of "''ping''" "[]"] by (simp add: misconfigured_state_def)
  have list: "list_tools example_factory misconfigured_state =
       (Inl (value_error ''bad working directory''),
        misconfigured_state\<lparr>logged := [(INFO, ''Initializing Terminal Toolkit'')],
          factory_calls := 1\<rparr>)"
    using conjunct2 [OF main] by (simp add: misconfigured_state_def)
  from none fails exc call list show ?thesis by blast
qed

end
